theory Spec2Isabelle
  imports Main "HOL-Library.Word"
begin

section \<open>JavaScript strings\<close>

text \<open>
  A JavaScript string is a sequence of UTF-16 code units; \<open>length\<close> counts code units.
  The done marker U+2705 of the source does not fit an 8-bit \<open>char\<close>, so a string is a
  list of 16-bit words. \<open>js\<close> embeds an ASCII literal.
\<close>

type_synonym jschar = "16 word"
type_synonym jsstring = "jschar list"

definition js :: "string \<Rightarrow> jsstring" where
  "js s = map of_char s"

abbreviation strlen :: "jsstring \<Rightarrow> int" where
  "strlen s \<equiv> int (length s)"

abbreviation LF :: jschar where "LF \<equiv> 0x0A"
abbreviation CR :: jschar where "CR \<equiv> 0x0D"
abbreviation SPACE :: jschar where "SPACE \<equiv> 0x20"
abbreviation DOLLAR :: jschar where "DOLLAR \<equiv> 0x24"
abbreviation AMPERSAND :: jschar where "AMPERSAND \<equiv> 0x26"
abbreviation APOSTROPHE :: jschar where "APOSTROPHE \<equiv> 0x27"
abbreviation STAR :: jschar where "STAR \<equiv> 0x2A"
abbreviation MINUS :: jschar where "MINUS \<equiv> 0x2D"
abbreviation DOT :: jschar where "DOT \<equiv> 0x2E"
abbreviation LESS :: jschar where "LESS \<equiv> 0x3C"
abbreviation GREATER :: jschar where "GREATER \<equiv> 0x3E"
abbreviation LBRACKET :: jschar where "LBRACKET \<equiv> 0x5B"
abbreviation RBRACKET :: jschar where "RBRACKET \<equiv> 0x5D"
abbreviation BACKTICK :: jschar where "BACKTICK \<equiv> 0x60"
abbreviation DONE_MARK :: jschar where "DONE_MARK \<equiv> 0x2705"

text \<open>The line terminators of ECMAScript: LF, CR, U+2028 and U+2029.\<close>

definition isLineTerminator :: "jschar \<Rightarrow> bool" where
  "isLineTerminator c \<longleftrightarrow> c = LF \<or> c = CR \<or> c = 0x2028 \<or> c = 0x2029"

text \<open>The atom \<open>.\<close> of a regular expression without the \<open>s\<close> flag: any code unit
  but a line terminator.\<close>

definition dot :: "jschar \<Rightarrow> bool" where
  "dot c \<longleftrightarrow> \<not> isLineTerminator c"

definition isDigit :: "jschar \<Rightarrow> bool" where
  "isDigit c \<longleftrightarrow> 0x30 \<le> c \<and> c \<le> 0x39"

section \<open>String.prototype.search\<close>

text \<open>
  \<open>s.search(r)\<close> returns the least index at which the unanchored pattern \<open>r\<close> matches,
  or \<open>-1\<close>. A pattern is given by \<open>here\<close>: does it match at the start of this suffix?
  Every index from \<open>0\<close> to the length of \<open>s\<close> is tried, in order.
\<close>

primrec search_from :: "(jsstring \<Rightarrow> bool) \<Rightarrow> nat \<Rightarrow> jsstring \<Rightarrow> int" where
  "search_from here i [] = (if here [] then int i else - 1)"
| "search_from here i (c # cs) = (if here (c # cs) then int i else search_from here (Suc i) cs)"

definition search :: "(jsstring \<Rightarrow> bool) \<Rightarrow> jsstring \<Rightarrow> int" where
  "search here s = search_from here 0 s"

text \<open>
  The pattern \<open>.+\n.+\<close> of \<open>toggledLine.search('.+\n.+')\<close>: a greedy run of at least one
  \<open>.\<close>, a line feed, and at least one more \<open>.\<close>. The run cannot stop early, since
  every code unit it could give back is not a line feed.
\<close>

definition lineBreakPattern :: "jsstring \<Rightarrow> bool" where
  "lineBreakPattern s =
     (case dropWhile dot s of
        a # b # _ \<Rightarrow> takeWhile dot s \<noteq> [] \<and> a = LF \<and> dot b
      | _ \<Rightarrow> False)"

text \<open>The pattern \<open>[-*]\<close> of \<open>toggledLine.search(/[-*]/)\<close>.\<close>

definition listMarkerCharPattern :: "jsstring \<Rightarrow> bool" where
  "listMarkerCharPattern s = (case s of [] \<Rightarrow> False | c # _ \<Rightarrow> c = MINUS \<or> c = STAR)"

section \<open>The cursor-offset reconciler\<close>

text \<open>The literal of the source that measures the done annotation: a space, the done
  marker U+2705 (one code unit), a space, and the ten characters \<open>YYYY-MM-DD\<close>.\<close>

definition doneDateText :: jsstring where
  "doneDateText = [SPACE, DONE_MARK, SPACE] @ js ''YYYY-MM-DD''"

text \<open>
  \<open>calculateCursorOffset\<close>, statement by statement. The constant
  \<open>TaskRegularExpressions.doneDateRegex\<close> is declared outside the sources at hand, so
  the test \<open>toggledLine.match(doneDateRegex)\<close> is the parameter \<open>doneDateRegex\<close>. The
  offset is an integer. The variable \<open>newLineLen\<close> is assigned twice in the source; the
  second value is \<open>newLineLen'\<close>.
\<close>

definition calculateCursorOffset ::
    "(jsstring \<Rightarrow> bool) \<Rightarrow> int \<Rightarrow> jsstring \<Rightarrow> jsstring \<Rightarrow> int" where
  "calculateCursorOffset doneDateRegex origCursorCh line toggledLine =
     (let newLineLen = strlen toggledLine in
      if newLineLen \<le> strlen line then
        (if origCursorCh \<ge> strlen toggledLine then newLineLen else origCursorCh)
      else
        let doneDateLength = strlen doneDateText;
            newLineLen' =
              (if doneDateRegex toggledLine \<and> newLineLen - strlen line \<ge> doneDateLength
               then newLineLen - doneDateLength else newLineLen)
        in
          if newLineLen' \<ge> 2 * strlen line \<and> search lineBreakPattern toggledLine \<noteq> - 1 then
            origCursorCh + newLineLen' - strlen line
          else
            let firstListItemChar = search listMarkerCharPattern toggledLine in
            if origCursorCh < firstListItemChar then origCursorCh
            else origCursorCh + newLineLen' - strlen line)"

text \<open>
  The done-date pattern \<open>TaskRegularExpressions.doneDateRegex\<close> is declared in the module
  \<open>Task\<close>, which is not among the sources. The three definitions that follow model it
  from the spec; they instantiate the parameter of \<open>calculateCursorOffset\<close> at concrete
  inputs only, and no theorem about \<open>calculateCursorOffset\<close> depends on them otherwise.
\<close>

text \<open>Modelled from the spec: the ISO literal \<open>YYYY-MM-DD\<close> of a date token (section 4.1),
  missing with \<open>doneDateRegex\<close>: four digits, a minus, two digits, a minus, two digits.\<close>

definition isoDate :: "jsstring \<Rightarrow> bool" where
  "isoDate s \<longleftrightarrow>
     length s = 10 \<and> list_all isDigit (take 4 s) \<and> s ! 4 = MINUS \<and>
     list_all isDigit (take 2 (drop 5 s)) \<and> s ! 7 = MINUS \<and> list_all isDigit (drop 8 s)"

text \<open>Modelled from the spec: \<open>doneDateRegex\<close> at one position. A date token is a marker
  immediately preceding an ISO literal (section 4.1); the done annotation is a suffix
  (section 4.5), and scenario A ends a line with the done marker, a space and the date. So
  the pattern is the done marker, any number of spaces, the date, and the end of the input.\<close>

definition doneDatePattern :: "jsstring \<Rightarrow> bool" where
  "doneDatePattern s =
     (case s of [] \<Rightarrow> False
      | c # cs \<Rightarrow> c = DONE_MARK \<and> isoDate (dropWhile (\<lambda>x. x = SPACE) cs))"

text \<open>Modelled from the spec: the test \<open>toggledLine.match(doneDateRegex)\<close>, true when the
  done-date pattern matches at some position.\<close>

definition doneDateRegex_spec :: "jsstring \<Rightarrow> bool" where
  "doneDateRegex_spec s \<longleftrightarrow> search doneDatePattern s \<noteq> - 1"

text \<open>
  Steps 3 and 4 of the policy of section 4.5, in the spec's words, on a given length
  delta: a line that has at least doubled and holds an embedded line break shifts the
  offset by the delta; otherwise an offset before the first list-marker character stays,
  and any other offset shifts by the delta.
\<close>

definition shiftPolicy :: "int \<Rightarrow> jsstring \<Rightarrow> jsstring \<Rightarrow> int \<Rightarrow> int" where
  "shiftPolicy offset oldLine newLine delta =
     (if strlen oldLine + delta \<ge> 2 * strlen oldLine \<and> search lineBreakPattern newLine \<noteq> - 1
      then offset + delta
      else if offset < search listMarkerCharPattern newLine then offset
      else offset + delta)"

section \<open>Regular expressions of the task grammar\<close>

text \<open>
  The result of matching a regular expression that is anchored at the start of the input
  (\<open>^\<close> without the \<open>m\<close> flag, so the match index is 0): the matched text and the
  capture groups 1, 2, ... in order. \<open>group m n\<close> is JavaScript's \<open>m[n]\<close>, which
  is \<open>undefined\<close> (here \<open>None\<close>) when the pattern has no group \<open>n\<close>.
\<close>

record regexMatch =
  matched :: jsstring
  captures :: "jsstring list"

definition group :: "regexMatch \<Rightarrow> nat \<Rightarrow> jsstring option" where
  "group m n =
     (if n = 0 then Some (matched m)
      else if n \<le> length (captures m) then Some (captures m ! (n - 1))
      else None)"

text \<open>The class \<open>\s\<close> of ECMAScript: white space and line terminators.\<close>

definition isWhiteSpace :: "jschar \<Rightarrow> bool" where
  "isWhiteSpace c \<longleftrightarrow>
     c = 0x09 \<or> c = 0x0A \<or> c = 0x0B \<or> c = 0x0C \<or> c = 0x0D \<or> c = 0x20 \<or> c = 0xA0 \<or>
     c = 0x1680 \<or> (0x2000 \<le> c \<and> c \<le> 0x200A) \<or> c = 0x2028 \<or> c = 0x2029 \<or>
     c = 0x202F \<or> c = 0x205F \<or> c = 0x3000 \<or> c = 0xFEFF"

text \<open>
  The patterns \<open>indentationRegex\<close>, \<open>listItemRegex\<close> and \<open>taskRegex\<close> that
  \<open>toggleLine\<close> uses are declared in \<open>TaskRegularExpressions\<close> of the module
  \<open>Task\<close>, which is not among the sources; the definitions that follow model them from
  the spec. Section 4.1 gives the fixed pattern: optional leading indentation, a list marker
  (\<open>-\<close>, \<open>*\<close> or numbered), a status box \<open>[symbol]\<close>, then body text; section 2 gives
  the decomposition of a line into indentation, list marker, status symbol and body, which are
  the capture groups 1 to 4 that \<open>toggleLine\<close> reads as \<open>$1\<close>, \<open>$2\<close>,
  \<open>regexMatch[3]\<close> and \<open>$4\<close>. Each pattern is deterministic: no character that a
  greedy run takes could start what follows the run, so the first match of a backtracking
  matcher is the one computed here.
\<close>

text \<open>Modelled from the spec: a character of the leading indentation (section 4.1), missing
  with \<open>indentationRegex\<close>: white space, or \<open>>\<close> for the block quote that the source
  comment of \<open>toggleDone\<close> names.\<close>

definition isIndentation :: "jschar \<Rightarrow> bool" where
  "isIndentation c \<longleftrightarrow> isWhiteSpace c \<or> c = GREATER"

text \<open>Modelled from the spec: \<open>indentationRegex\<close>, the optional leading indentation
  (section 4.1) as group 1; it matches every line.\<close>

definition indentationRegex :: "jsstring \<Rightarrow> regexMatch option" where
  "indentationRegex s =
     (let indentation = takeWhile isIndentation s
      in Some \<lparr>matched = indentation, captures = [indentation]\<rparr>)"

text \<open>Modelled from the spec: the list marker at the start of \<open>s\<close> (section 4.1:
  \<open>-\<close>, \<open>*\<close> or numbered), missing with \<open>listItemRegex\<close> and \<open>taskRegex\<close>; a
  numbered marker is one or more digits and a full stop.\<close>

definition listMarker :: "jsstring \<Rightarrow> jsstring option" where
  "listMarker s =
     (case s of
        [] \<Rightarrow> None
      | c # _ \<Rightarrow>
          if c = MINUS \<or> c = STAR then Some [c]
          else
            (case dropWhile isDigit s of
               [] \<Rightarrow> None
             | d # _ \<Rightarrow>
                 if takeWhile isDigit s \<noteq> [] \<and> d = DOT then Some (takeWhile isDigit s @ [DOT])
                 else None))"

text \<open>Modelled from the spec: \<open>listItemRegex\<close>, the generic list-item pattern
  (section 4.1): the indentation (group 1) and the list marker (group 2).\<close>

definition listItemRegex :: "jsstring \<Rightarrow> regexMatch option" where
  "listItemRegex s =
     (let indentation = takeWhile isIndentation s
      in case listMarker (dropWhile isIndentation s) of
           None \<Rightarrow> None
         | Some marker \<Rightarrow>
             Some \<lparr>matched = indentation @ marker, captures = [indentation, marker]\<rparr>)"

text \<open>The atom \<open>.\<close> under the \<open>u\<close> flag takes one code point: a surrogate pair, or else
  one code unit that is not a line terminator.\<close>

definition isHighSurrogate :: "jschar \<Rightarrow> bool" where
  "isHighSurrogate c \<longleftrightarrow> 0xD800 \<le> c \<and> c \<le> 0xDBFF"

definition isLowSurrogate :: "jschar \<Rightarrow> bool" where
  "isLowSurrogate c \<longleftrightarrow> 0xDC00 \<le> c \<and> c \<le> 0xDFFF"

fun codePoint :: "jsstring \<Rightarrow> jsstring option" where
  "codePoint [] = None"
| "codePoint [c] = (if isLineTerminator c then None else Some [c])"
| "codePoint (c # d # _) =
     (if isHighSurrogate c \<and> isLowSurrogate d then Some [c, d]
      else if isLineTerminator c then None else Some [c])"

definition isSpace :: "jschar \<Rightarrow> bool" where
  "isSpace c \<longleftrightarrow> c = SPACE"

text \<open>Modelled from the spec: \<open>taskRegex\<close>, the generic checklist-item pattern
  (section 4.1): indentation (group 1), list marker (group 2), one or more spaces, the status
  box with a status symbol of one code point (group 3), any number of spaces, and the body to
  the end of the line (group 4).\<close>

definition taskRegex :: "jsstring \<Rightarrow> regexMatch option" where
  "taskRegex s =
     (let indentation = takeWhile isIndentation s;
          r1 = dropWhile isIndentation s
      in case listMarker r1 of
           None \<Rightarrow> None
         | Some marker \<Rightarrow>
             let r2 = drop (length marker) r1;
                 gap = takeWhile isSpace r2
             in if gap = [] then None
                else
                  (case dropWhile isSpace r2 of
                     [] \<Rightarrow> None
                   | open # r3 \<Rightarrow>
                       if open \<noteq> LBRACKET then None
                       else
                         (case codePoint r3 of
                            None \<Rightarrow> None
                          | Some status \<Rightarrow>
                              (case drop (length status) r3 of
                                 [] \<Rightarrow> None
                               | close # r4 \<Rightarrow>
                                   if close \<noteq> RBRACKET then None
                                   else
                                     let gap2 = takeWhile isSpace r4;
                                         body = takeWhile dot (dropWhile isSpace r4)
                                     in Some \<lparr>matched =
                                                 indentation @ marker @ gap @ [LBRACKET] @ status @
                                                 [RBRACKET] @ gap2 @ body,
                                               captures = [indentation, marker, status, body]\<rparr>))))"

section \<open>String.prototype.replace\<close>

text \<open>
  The replacement text of \<open>s.replace(regex, template)\<close>, as ECMAScript's GetSubstitution
  computes it from the template: \<open>$$\<close> is a dollar, \<open>$&\<close> the matched text, \<open>$`\<close> the
  text before the match (empty: the match is at index 0), \<open>$'\<close> the text after the match,
  \<open>$n\<close> and \<open>$nn\<close> the capture group of that number. A two-digit number beyond the
  number of groups is read as one digit followed by a literal digit, and a number that
  names no group stays as it is written. The patterns have no named groups, so \<open>$<\<close>
  is literal, as is any other use of the dollar.
\<close>

definition digitValue :: "jschar \<Rightarrow> nat" where
  "digitValue c = unat (c - 0x30)"

fun getSubstitution :: "regexMatch \<Rightarrow> jsstring \<Rightarrow> jsstring \<Rightarrow> jsstring" where
  "getSubstitution m after [] = []"
| "getSubstitution m after [c] = [c]"
| "getSubstitution m after (c # d # t) =
     (if c \<noteq> DOLLAR then c # getSubstitution m after (d # t)
      else if d = DOLLAR then DOLLAR # getSubstitution m after t
      else if d = AMPERSAND then matched m @ getSubstitution m after t
      else if d = BACKTICK then getSubstitution m after t
      else if d = APOSTROPHE then after @ getSubstitution m after t
      else if isDigit d then
        (let captureLen = length (captures m);
             oneDigit =
               (if 1 \<le> digitValue d \<and> digitValue d \<le> captureLen
                then captures m ! (digitValue d - 1) else [DOLLAR, d])
         in case t of
              [] \<Rightarrow> oneDigit
            | e # t' \<Rightarrow>
                if isDigit e \<and> 10 * digitValue d + digitValue e \<le> captureLen then
                  (if 1 \<le> 10 * digitValue d + digitValue e
                   then captures m ! (10 * digitValue d + digitValue e - 1)
                   else [DOLLAR, d, e]) @ getSubstitution m after t'
                else oneDigit @ getSubstitution m after t)
      else DOLLAR # getSubstitution m after (d # t))"

text \<open>\<open>s.replace(regex, template)\<close> for a pattern without the \<open>g\<close> flag that is anchored
  at the start: the first match is replaced, the text after it is kept; a string that does
  not match is returned as it is.\<close>

definition replace :: "jsstring \<Rightarrow> (jsstring \<Rightarrow> regexMatch option) \<Rightarrow> jsstring \<Rightarrow> jsstring" where
  "replace s regex template =
     (case regex s of
        None \<Rightarrow> s
      | Some m \<Rightarrow>
          let after = drop (length (matched m)) s
          in getSubstitution m after template @ after)"

text \<open>\<open>Array.prototype.join\<close> on strings.\<close>

fun join :: "jsstring \<Rightarrow> jsstring list \<Rightarrow> jsstring" where
  "join sep [] = []"
| "join sep [x] = x"
| "join sep (x # y # ys) = x @ sep @ join sep (y # ys)"

section \<open>Toggling a line\<close>

text \<open>
  Modelled from the spec: the collaborators of \<open>toggleLine\<close> that live in the modules
  \<open>Task\<close> and \<open>StatusRegistry\<close>, which are not among the sources. They are parameters,
  total functions as the spec requires of them:
  \<open>fromLine\<close> is \<open>Task.fromLine\<close> at the fixed path, section and fallback date that
  \<open>toggleLine\<close> passes (section 4.1: \<open>parseLine\<close>, total, a Task or none);
  \<open>toggle\<close> and \<open>toFileLineString\<close> are the methods of a Task (section 4.4);
  \<open>nextStatusSymbol\<close> is \<open>StatusRegistry.getInstance().bySymbol(symbol).nextStatusSymbol\<close>
  (section 4.3: \<open>bySymbol\<close> never fails), applied to JavaScript's \<open>regexMatch[3]\<close>.
\<close>

record 'task collaborators =
  fromLine :: "jsstring \<Rightarrow> 'task option"
  toggle :: "'task \<Rightarrow> 'task list"
  toFileLineString :: "'task \<Rightarrow> jsstring"
  nextStatusSymbol :: "jsstring option \<Rightarrow> jsstring"

definition toggleLine :: "'task collaborators \<Rightarrow> jsstring \<Rightarrow> jsstring" where
  "toggleLine env line =
     (case fromLine env line of
        Some task \<Rightarrow> join [LF] (map (toFileLineString env) (toggle env task))
      | None \<Rightarrow>
          (case taskRegex line of
             Some regexMatch \<Rightarrow>
               let statusString = group regexMatch 3;
                   newStatusString = nextStatusSymbol env statusString
               in replace line taskRegex (js ''$1- ['' @ newStatusString @ js ''] $4'')
           | None \<Rightarrow>
               if listItemRegex line \<noteq> None then replace line listItemRegex (js ''$1$2 [ ]'')
               else replace line indentationRegex (js ''$1- '')))"

section \<open>Toggling a line, with exceptions\<close>











definition exactlyOne :: "bool list \<Rightarrow> bool" where
  "exactlyOne bs \<longleftrightarrow> length (filter (\<lambda>b. b) bs) = 1"

section \<open>The query entry point\<close>

text \<open>
  A promise settles once: \<open>resolve\<close> and \<open>reject\<close> change a pending promise and
  leave a settled one as it is.
\<close>

datatype ('v, 'e) promise = Pending | Fulfilled 'v | Rejected 'e

definition resolve :: "'v \<Rightarrow> ('v, 'e) promise \<Rightarrow> ('v, 'e) promise" where
  "resolve v p = (case p of Pending \<Rightarrow> Fulfilled v | _ \<Rightarrow> p)"

definition reject :: "'e \<Rightarrow> ('v, 'e) promise \<Rightarrow> ('v, 'e) promise" where
  "reject e p = (case p of Pending \<Rightarrow> Rejected e | _ \<Rightarrow> p)"

text \<open>
  Modelled from the spec: the classes \<open>Query\<close> and \<open>TaskExternal\<close>'s argument type and
  the cache state, declared in modules that are not among the sources. They are
  parameters: \<open>newQuery\<close> is the constructor \<open>new Query({source})\<close> (section 4.6:
  \<open>parse\<close>), \<open>Query_error\<close> the field \<open>error\<close> of a query, \<open>None\<close> when it is
  \<open>undefined\<close>; \<open>applyQueryToTasks\<close> returns the task lists of the groups in order
  (section 4.6: \<open>apply\<close>, pure); \<open>taskExternal\<close> is the constructor of
  \<open>TaskExternal\<close>; \<open>State_Warm\<close> is the constant \<open>State.Warm\<close>.
\<close>

record ('query, 'task, 'ext, 'state) queryApi =
  newQuery :: "jsstring \<Rightarrow> 'query"
  Query_error :: "'query \<Rightarrow> jsstring option"
  applyQueryToTasks :: "'query \<Rightarrow> 'task list \<Rightarrow> 'task list list"
  taskExternal :: "'task \<Rightarrow> 'ext"
  State_Warm :: "'state"

definition notWarmMessage :: jsstring where
  "notWarmMessage = js ''Cache is not warm, but expected to be so.''"

text \<open>
  What the callback of \<open>oneHotResolveQueryToTasks\<close> leaves behind: the promise, and the
  log of the calls \<open>myQuery.applyQueryToTasks(tasks)\<close> it made, each with the query and the
  task collection it was applied to.
\<close>

record ('query, 'task, 'ext) callbackState =
  promise :: "('ext list, jsstring) promise"
  applied :: "('query \<times> 'task list) list"

text \<open>
  The callback that \<open>oneHotResolveQueryToTasks\<close> hands to the cache with its request,
  run on the cache's answer \<open>(tasks, state)\<close>. The source has no \<open>return\<close> after
  either \<open>reject\<close>: the statements after it still run.
\<close>

definition cacheUpdateCallback ::
    "('query, 'task, 'ext, 'state) queryApi \<Rightarrow> jsstring \<Rightarrow> 'task list \<Rightarrow> 'state \<Rightarrow>
     ('query, 'task, 'ext) callbackState \<Rightarrow> ('query, 'task, 'ext) callbackState" where
  "cacheUpdateCallback api query tasks state st =
     (let tasksExternal = [];
          myQuery = newQuery api query;
          st1 = (case Query_error api myQuery of
                   Some e \<Rightarrow> st\<lparr>promise := reject e (promise st)\<rparr>
                 | None \<Rightarrow> st)
      in if state = State_Warm api then
           let taskGroups = applyQueryToTasks api myQuery tasks;
               st2 = st1\<lparr>applied := applied st1 @ [(myQuery, tasks)]\<rparr>;
               tasksExternal' =
                 foldl (\<lambda>acc group. acc @ map (taskExternal api) group) tasksExternal taskGroups
           in st2\<lparr>promise := resolve tasksExternal' (promise st2)\<rparr>
         else
           let st2 = st1\<lparr>promise := reject notWarmMessage (promise st1)\<rparr>
           in st2\<lparr>promise := resolve tasksExternal (promise st2)\<rparr>)"

text \<open>The state that \<open>oneHotResolveQueryToTasks\<close> reaches once the cache has answered the
  request: the callback has run on the new, pending promise, with no call made before.\<close>

definition oneHotResolveQueryToTasks ::
    "('query, 'task, 'ext, 'state) queryApi \<Rightarrow> jsstring \<Rightarrow> 'task list \<Rightarrow> 'state \<Rightarrow>
     ('query, 'task, 'ext) callbackState" where
  "oneHotResolveQueryToTasks api query tasks state =
     cacheUpdateCallback api query tasks state \<lparr>promise = Pending, applied = []\<rparr>"

section \<open>Concrete settings\<close>

text \<open>
  A setting in which \<open>toggleLine\<close> is evaluated on concrete lines: the status registry
  is the minimal two-status configuration of section 4.3 (the symbol of a space moves to
  \<open>x\<close>, every other symbol to a space), and no line parses as a Task, as when every
  line lacks the global filter that the source comment names.
\<close>

definition exampleEnv :: "unit collaborators" where
  "exampleEnv =
     \<lparr>fromLine = (\<lambda>line. None),
      toggle = (\<lambda>task. [task]),
      toFileLineString = (\<lambda>task. []),
      nextStatusSymbol = (\<lambda>symbol. if symbol = Some (js '' '') then js ''x'' else js '' '')\<rparr>"


text \<open>
  A setting in which the query entry point is evaluated: a query is its source text, the
  only source that compiles is \<open>not done\<close>, any other source has an error that quotes
  it, and applying a query puts all tasks into one group.
\<close>

definition exampleApi :: "(jsstring, nat, nat, bool) queryApi" where
  "exampleApi =
     \<lparr>newQuery = (\<lambda>source. source),
      Query_error =
        (\<lambda>q. if q = js ''not done'' then None else Some (js ''do not understand query: '' @ q)),
      applyQueryToTasks = (\<lambda>q tasks. [tasks]),
      taskExternal = (\<lambda>task. task),
      State_Warm = True\<rparr>"

section \<open>Facts about search\<close>

lemma search_from_range:
  "search_from here i s \<noteq> - 1 \<Longrightarrow>
     int i \<le> search_from here i s \<and> search_from here i s \<le> int i + strlen s"
proof (induction s arbitrary: i)
  case Nil
  then show ?case by (simp split: if_splits)
next
  case (Cons c cs)
  show ?case
  proof (cases "here (c # cs)")
    case True
    then show ?thesis by simp
  next
    case False
    with Cons.prems have "search_from here (Suc i) cs \<noteq> - 1" by simp
    from Cons.IH [OF this] False show ?thesis by simp
  qed
qed

lemma search_from_lt:
  "\<not> here [] \<Longrightarrow> search_from here i s \<noteq> - 1 \<Longrightarrow> search_from here i s < int i + strlen s"
proof (induction s arbitrary: i)
  case Nil
  then show ?case by simp
next
  case (Cons c cs)
  show ?case
  proof (cases "here (c # cs)")
    case True
    then show ?thesis by simp
  next
    case False
    with Cons.prems have "search_from here (Suc i) cs \<noteq> - 1" by simp
    from Cons.IH [OF Cons.prems(1) this] False show ?thesis by simp
  qed
qed

lemma search_range:
  "search here s \<noteq> - 1 \<Longrightarrow> 0 \<le> search here s \<and> search here s \<le> strlen s"
  using search_from_range [of here 0 s] by (simp add: search_def)

lemma search_lt_length:
  "\<not> here [] \<Longrightarrow> search here s \<noteq> - 1 \<Longrightarrow> search here s < strlen s"
  using search_from_lt [of here 0 s] by (simp add: search_def)

lemma search_from_found_iff:
  "search_from here i s \<noteq> - 1 \<longleftrightarrow> (\<exists>k\<le>length s. here (drop k s))"
proof (induction s arbitrary: i)
  case Nil
  then show ?case by simp
next
  case (Cons c cs)
  show ?case
  proof (cases "here (c # cs)")
    case True
    then have "\<exists>k\<le>length (c # cs). here (drop k (c # cs))"
      by (intro exI [of _ 0]) simp
    with True show ?thesis by simp
  next
    case False
    have "(\<exists>k\<le>length (c # cs). here (drop k (c # cs))) \<longleftrightarrow> (\<exists>k\<le>length cs. here (drop k cs))"
    proof
      assume "\<exists>k\<le>length (c # cs). here (drop k (c # cs))"
      then obtain k where k: "k \<le> length (c # cs)" "here (drop k (c # cs))" by blast
      with False obtain k' where "k = Suc k'" by (cases k) auto
      with k show "\<exists>k\<le>length cs. here (drop k cs)" by auto
    next
      assume "\<exists>k\<le>length cs. here (drop k cs)"
      then obtain k where "k \<le> length cs" "here (drop k cs)" by blast
      then show "\<exists>k\<le>length (c # cs). here (drop k (c # cs))"
        by (intro exI [of _ "Suc k"]) simp
    qed
    with False Cons.IH [of "Suc i"] show ?thesis by simp
  qed
qed

lemma doneDateLength: "strlen doneDateText = 13"
  by (simp add: doneDateText_def js_def)

lemma lineBreakPattern_iff:
  "lineBreakPattern s \<longleftrightarrow>
     (\<exists>run b rest. s = run @ LF # b # rest \<and> run \<noteq> [] \<and> (\<forall>c\<in>set run. dot c) \<and> dot b)"
proof
  assume m: "lineBreakPattern s"
  then obtain a b rest where d: "dropWhile dot s = a # b # rest"
    by (auto simp: lineBreakPattern_def split: list.splits)
  with m have "takeWhile dot s \<noteq> []" "a = LF" "dot b"
    by (auto simp: lineBreakPattern_def)
  moreover have "takeWhile dot s @ dropWhile dot s = s" by simp
  with d \<open>a = LF\<close> have "s = takeWhile dot s @ LF # b # rest" by simp
  moreover have "\<forall>c\<in>set (takeWhile dot s). dot c" by (auto dest: set_takeWhileD)
  ultimately show "\<exists>run b rest. s = run @ LF # b # rest \<and> run \<noteq> [] \<and> (\<forall>c\<in>set run. dot c) \<and> dot b"
    by (intro exI [of _ "takeWhile dot s"] exI [of _ b] exI [of _ rest]) simp
next
  assume "\<exists>run b rest. s = run @ LF # b # rest \<and> run \<noteq> [] \<and> (\<forall>c\<in>set run. dot c) \<and> dot b"
  then obtain run b rest where s: "s = run @ LF # b # rest" and ne: "run \<noteq> []"
    and run: "\<forall>c\<in>set run. dot c" and b: "dot b" by blast
  have lf: "\<not> dot LF" by (simp add: dot_def isLineTerminator_def)
  from run lf have "takeWhile dot s = run" "dropWhile dot s = LF # b # rest"
    unfolding s by (simp_all add: takeWhile_append2 dropWhile_append2)
  with ne b show "lineBreakPattern s" by (simp add: lineBreakPattern_def)
qed

lemma search_lineBreakPattern_iff:
  "search lineBreakPattern s \<noteq> - 1 \<longleftrightarrow>
     (\<exists>pre a b post. s = pre @ [a, LF, b] @ post \<and> dot a \<and> dot b)"
proof
  assume "search lineBreakPattern s \<noteq> - 1"
  then obtain k where "lineBreakPattern (drop k s)"
    by (auto simp: search_def search_from_found_iff)
  then obtain run b rest where d: "drop k s = run @ LF # b # rest" and ne: "run \<noteq> []"
    and run: "\<forall>c\<in>set run. dot c" and b: "dot b"
    by (auto simp: lineBreakPattern_iff)
  from ne have r: "run = butlast run @ [last run]" by simp
  have "drop k s = (butlast run @ [last run]) @ LF # b # rest"
    using d r by simp
  then have "take k s @ drop k s = (take k s @ butlast run) @ [last run, LF, b] @ rest"
    by simp
  then have "s = (take k s @ butlast run) @ [last run, LF, b] @ rest" by simp
  moreover from ne run have "dot (last run)" by simp
  ultimately show "\<exists>pre a b post. s = pre @ [a, LF, b] @ post \<and> dot a \<and> dot b"
    using b by (intro exI [of _ "take k s @ butlast run"] exI [of _ "last run"] exI [of _ b] exI [of _ rest]) simp
next
  assume "\<exists>pre a b post. s = pre @ [a, LF, b] @ post \<and> dot a \<and> dot b"
  then obtain pre a b post where s: "s = pre @ [a, LF, b] @ post" and a: "dot a" and b: "dot b"
    by blast
  have "\<exists>run b' rest. [a] @ LF # b # post = run @ LF # b' # rest \<and> run \<noteq> [] \<and>
      (\<forall>c\<in>set run. dot c) \<and> dot b'"
    using a b by (intro exI [of _ "[a]"] exI [of _ b] exI [of _ post]) simp
  then have "lineBreakPattern ([a] @ LF # b # post)"
    by (simp only: lineBreakPattern_iff)
  then have "lineBreakPattern (drop (length pre) s)" by (simp add: s)
  moreover have "length pre \<le> length s" by (simp add: s)
  ultimately have "\<exists>k\<le>length s. lineBreakPattern (drop k s)" by blast
  then show "search lineBreakPattern s \<noteq> - 1"
    by (simp only: search_def search_from_found_iff)
qed

lemmas eval_defs = js_def doneDateText_def doneDateRegex_spec_def search_def
  doneDatePattern_def lineBreakPattern_def dot_def isLineTerminator_def
  listMarkerCharPattern_def isoDate_def isDigit_def

section \<open>Facts about the grammar and the replacement\<close>

lemma digit_not_indentation: "isDigit c \<Longrightarrow> \<not> isIndentation c"
  unfolding isDigit_def isIndentation_def isWhiteSpace_def
  by (auto simp: word_le_nat_alt)

lemma marker_chars_not_indentation: "\<not> isIndentation MINUS" "\<not> isIndentation STAR"
  by (simp_all add: isIndentation_def isWhiteSpace_def)

lemma listMarker_SomeD:
  assumes "listMarker s = Some marker"
  shows "\<exists>rest. s = marker @ rest \<and> marker \<noteq> [] \<and> \<not> isIndentation (hd marker)"
proof (cases s)
  case Nil
  with assms show ?thesis by (simp add: listMarker_def)
next
  case (Cons c cs)
  show ?thesis
  proof (cases "c = MINUS \<or> c = STAR")
    case True
    with assms Cons have "marker = [c]" by (auto simp: listMarker_def)
    with True Cons marker_chars_not_indentation show ?thesis by auto
  next
    case False
    with assms Cons obtain d r where d: "dropWhile isDigit s = d # r"
      and ne: "takeWhile isDigit s \<noteq> []" and dot: "d = DOT"
      and m: "marker = takeWhile isDigit s @ [DOT]"
      by (auto simp: listMarker_def split: list.splits if_splits)
    have "s = takeWhile isDigit s @ dropWhile isDigit s" by simp
    with d dot m have "s = marker @ r" by simp
    moreover from ne have "hd marker = hd (takeWhile isDigit s)" by (simp add: m)
    moreover from ne have "isDigit (hd (takeWhile isDigit s))"
      by (metis hd_in_set set_takeWhileD)
    ultimately show ?thesis using m digit_not_indentation by auto
  qed
qed


lemma listItemRegex_SomeD:
  assumes "listItemRegex s = Some m"
  shows "\<exists>marker. listMarker (dropWhile isIndentation s) = Some marker \<and>
           matched m = takeWhile isIndentation s @ marker \<and>
           captures m = [takeWhile isIndentation s, marker]"
  using assms by (auto simp: listItemRegex_def Let_def split: option.splits)

lemma taskRegex_SomeD:
  assumes "taskRegex s = Some m"
  shows "\<exists>marker status body. listMarker (dropWhile isIndentation s) = Some marker \<and>
           captures m = [takeWhile isIndentation s, marker, status, body]"
  using assms
  by (auto simp: taskRegex_def Let_def split: option.splits list.splits if_splits)

lemma taskRegex_listItemRegex:
  assumes "taskRegex s = Some m"
  shows "listItemRegex s \<noteq> None"
proof -
  from taskRegex_SomeD [OF assms] obtain marker
    where "listMarker (dropWhile isIndentation s) = Some marker" by blast
  then show ?thesis by (simp add: listItemRegex_def Let_def)
qed

lemma listItemRegex_decompose:
  assumes "list_all isIndentation ind" and "listMarker (marker @ rest) = Some marker"
  shows "listItemRegex (ind @ marker @ rest) =
           Some \<lparr>matched = ind @ marker, captures = [ind, marker]\<rparr>"
proof -
  from listMarker_SomeD [OF assms(2)] have ne: "marker \<noteq> []" and hd: "\<not> isIndentation (hd marker)"
    by auto
  then obtain c cs where m: "marker = c # cs" and c: "\<not> isIndentation c"
    by (cases marker) auto
  from assms(1) have all: "\<forall>x\<in>set ind. isIndentation x" by (simp add: list_all_iff)
  have t: "takeWhile isIndentation (ind @ marker @ rest) = ind"
    using all c by (simp add: m takeWhile_append2)
  have d: "dropWhile isIndentation (ind @ marker @ rest) = marker @ rest"
    using all c by (simp add: m dropWhile_append2)
  show ?thesis
    by (simp add: listItemRegex_def Let_def t d assms(2))
qed

lemma subst_indentation:
  assumes "captures m = [ind]"
  shows "getSubstitution m after (js ''$1- '') = ind @ js ''- ''"
  using assms by (simp add: js_def isDigit_def digitValue_def)

lemma subst_listItem:
  assumes "captures m = [ind, marker]"
  shows "getSubstitution m after (js ''$1$2 [ ]'') = ind @ marker @ js '' [ ]''"
  using assms by (simp add: js_def isDigit_def digitValue_def)


lemmas grammar_defs = js_def taskRegex_def listItemRegex_def indentationRegex_def listMarker_def
  isIndentation_def isWhiteSpace_def isSpace_def isDigit_def dot_def isLineTerminator_def
  isHighSurrogate_def isLowSurrogate_def Let_def

lemma toggleLine_plain:
  assumes "fromLine env line = None" and "listItemRegex line = None"
  shows "taskRegex line = None \<and>
         toggleLine env line = takeWhile isIndentation line @ js ''- '' @ dropWhile isIndentation line"
proof -
  from assms(2) taskRegex_listItemRegex [of line] have t: "taskRegex line = None"
    by (cases "taskRegex line") auto
  have "replace line indentationRegex (js ''$1- '') =
          takeWhile isIndentation line @ js ''- '' @ dropWhile isIndentation line"
    by (simp add: replace_def indentationRegex_def Let_def subst_indentation dropWhile_eq_drop)
  with assms t show ?thesis by (simp add: toggleLine_def)
qed

lemma toggleLine_listItem:
  assumes "fromLine env line = None" and "taskRegex line = None"
    and "listItemRegex line = Some m"
  shows "\<exists>indentation marker. captures m = [indentation, marker] \<and>
           toggleLine env line =
             indentation @ marker @ js '' [ ]'' @ drop (length (matched m)) line"
proof -
  from listItemRegex_SomeD [OF assms(3)] obtain marker
    where c: "captures m = [takeWhile isIndentation line, marker]" by blast
  have "replace line listItemRegex (js ''$1$2 [ ]'') =
          takeWhile isIndentation line @ marker @ js '' [ ]'' @ drop (length (matched m)) line"
    by (simp add: replace_def assms(3) Let_def subst_listItem [OF c])
  with assms c show ?thesis by (simp add: toggleLine_def)
qed

section \<open>Facts about toggling with exceptions\<close>






lemma exactlyOne_simps:
  "exactlyOne [True, False, False, False]" "exactlyOne [False, True, False, False]"
  "exactlyOne [False, False, True, False]" "exactlyOne [False, False, False, True]"
  by (simp_all add: exactlyOne_def)







section \<open>Claims about the cursor-offset reconciler\<close>

text \<open>
  Claim C2. For every original offset between 0 and the length of the old line, and every
  old and new line, \<open>calculateCursorOffset\<close> (a total function of its arguments alone)
  returns an offset that is not negative and not beyond the length of the new line. This
  holds whatever the done-date pattern is.
\<close>

theorem calculateCursorOffset_in_range:
  assumes "0 \<le> originalOffset" and "originalOffset \<le> strlen oldLine"
  shows "0 \<le> calculateCursorOffset doneDateRegex originalOffset oldLine newLine \<and>
         calculateCursorOffset doneDateRegex originalOffset oldLine newLine \<le> strlen newLine"
proof -
  have nonempty: "\<not> listMarkerCharPattern []"
    by (simp add: listMarkerCharPattern_def)
  have first: "originalOffset < search listMarkerCharPattern newLine \<Longrightarrow>
      originalOffset < strlen newLine"
    using search_lt_length [of listMarkerCharPattern newLine] nonempty assms(1) by fastforce
  show ?thesis
    using assms first
    by (auto simp: calculateCursorOffset_def Let_def doneDateLength)
qed

text \<open>The theorem at a concrete input.\<close>

theorem calculateCursorOffset_in_range_witness:
  "(0::int) \<le> 2 \<and> 2 \<le> strlen (js ''  Just text'') \<and>
   0 \<le> calculateCursorOffset doneDateRegex_spec 2 (js ''  Just text'') (js ''  - Just text'') \<and>
   calculateCursorOffset doneDateRegex_spec 2 (js ''  Just text'') (js ''  - Just text'')
     \<le> strlen (js ''  - Just text'')"
proof -
  have "(0::int) \<le> 2" and "2 \<le> strlen (js ''  Just text'')"
    by (simp_all add: js_def)
  from calculateCursorOffset_in_range [OF this,
      where doneDateRegex = doneDateRegex_spec and newLine = "js ''  - Just text''"]
  show ?thesis by (simp add: js_def)
qed

text \<open>
  Claim C3. When the new line is no longer than the old line, the result is the original
  offset clamped to the length of the new line: the length of the new line when the
  offset is at or past it, the offset itself otherwise; so the result never exceeds the
  length of the new line. This holds for every offset.
\<close>

theorem calculateCursorOffset_clamp:
  assumes "length newLine \<le> length oldLine"
  shows "calculateCursorOffset doneDateRegex originalOffset oldLine newLine =
           (if originalOffset \<ge> strlen newLine then strlen newLine else originalOffset) \<and>
         calculateCursorOffset doneDateRegex originalOffset oldLine newLine \<le> strlen newLine"
  using assms by (simp add: calculateCursorOffset_def Let_def)

text \<open>The theorem at a concrete input.\<close>

theorem calculateCursorOffset_clamp_witness:
  "length (js ''- [ ] a'') \<le> length (js ''- [x] a !'') \<and>
   calculateCursorOffset doneDateRegex_spec 9 (js ''- [x] a !'') (js ''- [ ] a'') = 7 \<and>
   calculateCursorOffset doneDateRegex_spec 3 (js ''- [x] a !'') (js ''- [ ] a'') = 3"
proof -
  have h: "length (js ''- [ ] a'') \<le> length (js ''- [x] a !'')"
    by (simp add: js_def)
  from calculateCursorOffset_clamp [OF h, where doneDateRegex = doneDateRegex_spec and originalOffset = 9]
    calculateCursorOffset_clamp [OF h, where doneDateRegex = doneDateRegex_spec and originalOffset = 3]
  show ?thesis by (simp add: js_def)
qed

text \<open>
  Claim C4. The done annotation is 13 code units wide. When the new line is strictly
  longer than the old one, matches the done-date pattern and has grown by at least that
  width, the remaining steps of the policy run on the length delta less that width; when
  the pattern does not match or the growth is smaller, they run on the length delta
  itself.
\<close>

theorem calculateCursorOffset_done_date:
  assumes "length oldLine < length newLine"
  shows "strlen doneDateText = 13 \<and>
    (doneDateRegex newLine \<and> strlen newLine - strlen oldLine \<ge> strlen doneDateText \<longrightarrow>
       calculateCursorOffset doneDateRegex originalOffset oldLine newLine =
         shiftPolicy originalOffset oldLine newLine (strlen newLine - strlen oldLine - strlen doneDateText)) \<and>
    (\<not> (doneDateRegex newLine \<and> strlen newLine - strlen oldLine \<ge> strlen doneDateText) \<longrightarrow>
       calculateCursorOffset doneDateRegex originalOffset oldLine newLine =
         shiftPolicy originalOffset oldLine newLine (strlen newLine - strlen oldLine))"
  using assms by (auto simp: calculateCursorOffset_def shiftPolicy_def Let_def doneDateLength)

text \<open>The theorem at a concrete input.\<close>

theorem calculateCursorOffset_done_date_witness:
  "length (js ''- [ ] Buy milk'') < length (js ''- [x] Buy milk '' @ [DONE_MARK] @ js '' 2024-01-01'') \<and>
   doneDateRegex_spec (js ''- [x] Buy milk '' @ [DONE_MARK] @ js '' 2024-01-01'') \<and>
   calculateCursorOffset doneDateRegex_spec 3 (js ''- [ ] Buy milk'')
       (js ''- [x] Buy milk '' @ [DONE_MARK] @ js '' 2024-01-01'') =
     shiftPolicy 3 (js ''- [ ] Buy milk'') (js ''- [x] Buy milk '' @ [DONE_MARK] @ js '' 2024-01-01'') 0 \<and>
   length (js ''  Just text'') < length (js ''  - Just text'') \<and>
   \<not> doneDateRegex_spec (js ''  - Just text'') \<and>
   calculateCursorOffset doneDateRegex_spec 3 (js ''  Just text'') (js ''  - Just text'') =
     shiftPolicy 3 (js ''  Just text'') (js ''  - Just text'') 2"
proof -
  have h1: "length (js ''- [ ] Buy milk'') < length (js ''- [x] Buy milk '' @ [DONE_MARK] @ js '' 2024-01-01'')"
    by (simp add: js_def)
  have d1: "doneDateRegex_spec (js ''- [x] Buy milk '' @ [DONE_MARK] @ js '' 2024-01-01'')"
    by (simp add: eval_defs)
  have h2: "length (js ''  Just text'') < length (js ''  - Just text'')"
    by (simp add: js_def)
  have d2: "\<not> doneDateRegex_spec (js ''  - Just text'')"
    by (simp add: eval_defs)
  from calculateCursorOffset_done_date [OF h1, where doneDateRegex = doneDateRegex_spec and originalOffset = 3]
    calculateCursorOffset_done_date [OF h2, where doneDateRegex = doneDateRegex_spec and originalOffset = 3]
    h1 d1 h2 d2
  show ?thesis by (simp add: js_def)
qed

text \<open>
  Claim C5 as stated fails. The new line made of \<open>a\<close>, a carriage return, a line
  feed and \<open>-\<close> is longer than the old line \<open>a\<close>, is at least twice as long, and
  holds a line break with a character on each side. The character before the line feed is
  a carriage return, which \<open>.\<close> does not match, so the search of the source finds no
  match; the offset 0 lies before the list marker at index 3 and is returned unchanged,
  not shifted by the delta 3.
\<close>

theorem calculateCursorOffset_line_break_counterexample:
  "length (js ''a'') < length (js ''a'' @ [CR, LF] @ js ''-'') \<and>
   2 * strlen (js ''a'') \<le> strlen (js ''a'' @ [CR, LF] @ js ''-'') \<and>
   \<not> doneDateRegex_spec (js ''a'' @ [CR, LF] @ js ''-'') \<and>
   (js ''a'' @ [CR, LF] @ js ''-'') ! 2 = LF \<and>
   calculateCursorOffset doneDateRegex_spec 0 (js ''a'') (js ''a'' @ [CR, LF] @ js ''-'') = 0 \<and>
   calculateCursorOffset doneDateRegex_spec 0 (js ''a'') (js ''a'' @ [CR, LF] @ js ''-'')
     \<noteq> 0 + (strlen (js ''a'' @ [CR, LF] @ js ''-'') - strlen (js ''a''))"
  by (simp add: calculateCursorOffset_def eval_defs Let_def)

text \<open>
  Claim C5, as amended. When the new line is strictly longer than the old line, its length
  after the done-date compensation is at least twice the length of the old line, and it
  holds a line feed that is immediately preceded and immediately followed by a character
  other than a line terminator (LF, CR, U+2028, U+2029), the result is the original offset
  plus the adjusted length less the old length, for every offset.
\<close>

theorem calculateCursorOffset_duplicated_line:
  assumes "length oldLine < length newLine"
    and "adjusted = (if doneDateRegex newLine \<and> strlen newLine - strlen oldLine \<ge> strlen doneDateText
                     then strlen newLine - strlen doneDateText else strlen newLine)"
    and "adjusted \<ge> 2 * strlen oldLine"
    and "newLine = pre @ [a, LF, b] @ post" and "dot a" and "dot b"
  shows "calculateCursorOffset doneDateRegex originalOffset oldLine newLine =
           originalOffset + (adjusted - strlen oldLine)"
proof -
  from assms(4-6) have "search lineBreakPattern newLine \<noteq> - 1"
    unfolding search_lineBreakPattern_iff by blast
  with assms(1-3) show ?thesis
    by (simp add: calculateCursorOffset_def Let_def)
qed

text \<open>The theorem at a concrete input.\<close>

theorem calculateCursorOffset_duplicated_line_witness:
  "length (js ''- [ ] a'') < length (js ''- [ ] a'' @ [LF] @ js ''- [x] a '' @ [DONE_MARK] @ js '' 2024-01-15'') \<and>
   doneDateRegex_spec (js ''- [ ] a'' @ [LF] @ js ''- [x] a '' @ [DONE_MARK] @ js '' 2024-01-15'') \<and>
   calculateCursorOffset doneDateRegex_spec 3 (js ''- [ ] a'')
     (js ''- [ ] a'' @ [LF] @ js ''- [x] a '' @ [DONE_MARK] @ js '' 2024-01-15'') = 11"
proof -
  let ?new = "js ''- [ ] a'' @ [LF] @ js ''- [x] a '' @ [DONE_MARK] @ js '' 2024-01-15''"
  have h1: "length (js ''- [ ] a'') < length ?new"
    by (simp add: js_def)
  have d: "doneDateRegex_spec ?new"
    by (simp add: eval_defs)
  have h2: "(15::int) = (if doneDateRegex_spec ?new \<and> strlen ?new - strlen (js ''- [ ] a'') \<ge> strlen doneDateText
                     then strlen ?new - strlen doneDateText else strlen ?new)"
    using d by (simp add: js_def doneDateText_def)
  have h3: "(15::int) \<ge> 2 * strlen (js ''- [ ] a'')"
    by (simp add: js_def)
  have h4: "?new = js ''- [ ] '' @ [0x61, LF, MINUS] @ (js '' [x] a '' @ [DONE_MARK] @ js '' 2024-01-15'')"
    by (simp add: js_def)
  have h5: "dot 0x61" and h6: "dot MINUS"
    by (simp_all add: dot_def isLineTerminator_def)
  from calculateCursorOffset_duplicated_line
      [where doneDateRegex = doneDateRegex_spec and originalOffset = 3, OF h1 h2 h3 h4 h5 h6] h1 d
  show ?thesis by (simp add: js_def)
qed

text \<open>
  Claim C6, evaluated at two list items with a numbered marker and the lines that
  \<open>toggleLine\<close> makes of them. The search of the source looks for the first \<open>-\<close> or
  \<open>*\<close>, not for the list marker. In the line of two spaces and \<open>1. [ ] a\<close> it finds
  nothing and returns \<open>-1\<close>, so the offset 0, which lies in the leading indentation, is
  shifted by the delta 4 instead of staying. In the line \<open>1. [ ] a-b\<close> it finds the hyphen
  of the body at index 8, so the offset 4, which lies after the list marker \<open>1.\<close>, stays
  instead of being shifted to 8. The comments of the source say that the search finds the
  first list marker and that an offset before it was in the indentation.
\<close>

theorem calculateCursorOffset_numbered_marker_evaluation:
  "toggleLine exampleEnv (js ''  1. a'') = js ''  1. [ ] a'' \<and>
   takeWhile isIndentation (js ''  1. a'') = js ''  '' \<and>
   search listMarkerCharPattern (js ''  1. [ ] a'') = - 1 \<and>
   calculateCursorOffset doneDateRegex_spec 0 (js ''  1. a'') (js ''  1. [ ] a'') = 4 \<and>
   toggleLine exampleEnv (js ''1. a-b'') = js ''1. [ ] a-b'' \<and>
   listMarker (js ''1. [ ] a-b'') = Some (js ''1.'') \<and>
   search listMarkerCharPattern (js ''1. [ ] a-b'') = 8 \<and>
   calculateCursorOffset doneDateRegex_spec 4 (js ''1. a-b'') (js ''1. [ ] a-b'') = 4"
  by (simp add: toggleLine_def replace_def exampleEnv_def grammar_defs digitValue_def
      calculateCursorOffset_def eval_defs)

text \<open>
  Claim C10. The result depends on the old line through its length only: two old lines of
  equal length give the same result for every offset and every new line.
\<close>

theorem calculateCursorOffset_old_line_length_only:
  assumes "length oldLine1 = length oldLine2"
  shows "calculateCursorOffset doneDateRegex originalOffset oldLine1 newLine =
         calculateCursorOffset doneDateRegex originalOffset oldLine2 newLine"
  using assms by (simp add: calculateCursorOffset_def Let_def)

text \<open>The theorem at a concrete input.\<close>

theorem calculateCursorOffset_old_line_length_only_witness:
  "length (js ''  Just text'') = length (js ''- [ ] 12345'') \<and>
   calculateCursorOffset doneDateRegex_spec 2 (js ''  Just text'') (js ''  - Just text'') =
   calculateCursorOffset doneDateRegex_spec 2 (js ''- [ ] 12345'') (js ''  - Just text'')"
proof -
  have h: "length (js ''  Just text'') = length (js ''- [ ] 12345'')"
    by (simp add: js_def)
  from calculateCursorOffset_old_line_length_only [OF h] h show ?thesis by blast
qed

section \<open>Claims about toggling a line\<close>

text \<open>
  Claim C1, evaluated at the line \<open>* [ ] a\<close>, which matches the checklist pattern and
  does not parse as a Task. The status symbol moves from a space to \<open>x\<close>, and the
  indentation and the body stay; but the replacement template writes the list marker as
  \<open>-\<close> instead of the captured marker \<open>*\<close>, so the line becomes \<open>- [x] a\<close>.
  The list-item branch beside it keeps the captured marker.
\<close>

theorem toggleLine_checklist_marker_evaluation:
  "fromLine exampleEnv (js ''* [ ] a'') = None \<and>
   taskRegex (js ''* [ ] a'') =
     Some \<lparr>matched = js ''* [ ] a'', captures = [[], js ''*'', js '' '', js ''a'']\<rparr> \<and>
   nextStatusSymbol exampleEnv (Some (js '' '')) = js ''x'' \<and>
   toggleLine exampleEnv (js ''* [ ] a'') = js ''- [x] a''"
  by (simp add: toggleLine_def replace_def group_def exampleEnv_def grammar_defs digitValue_def)

text \<open>
  Claim C7. For a line that does not parse as a Task, the checklist pattern is tested
  first: when it matches, its replacement is the result, although the list-item pattern
  matches the same line. Otherwise a line made of indentation, a list marker and the rest
  gains the empty status box \<open> [ ]\<close> after the marker. A line that does not match
  the list-item pattern does not match the checklist pattern either, and gains the marker
  \<open>- \<close> after its leading indentation; so the line of two spaces and \<open>Just text\<close>
  becomes two spaces, \<open>- \<close> and \<open>Just text\<close>.
\<close>

theorem toggleLine_fallback_priority:
  assumes "fromLine env line = None"
  shows "(\<forall>m. taskRegex line = Some m \<longrightarrow>
            listItemRegex line \<noteq> None \<and>
            toggleLine env line =
              replace line taskRegex (js ''$1- ['' @ nextStatusSymbol env (group m 3) @ js ''] $4'')) \<and>
         (taskRegex line = None \<longrightarrow>
            (\<forall>indentation marker rest.
               line = indentation @ marker @ rest \<and> list_all isIndentation indentation \<and>
               listMarker (marker @ rest) = Some marker \<longrightarrow>
               toggleLine env line = indentation @ marker @ js '' [ ]'' @ rest)) \<and>
         (listItemRegex line = None \<longrightarrow>
            taskRegex line = None \<and>
            toggleLine env line =
              takeWhile isIndentation line @ js ''- '' @ dropWhile isIndentation line) \<and>
         (line = js ''  Just text'' \<longrightarrow> toggleLine env line = js ''  - Just text'')"
proof (intro conjI allI impI)
  fix m assume "taskRegex line = Some m"
  then show "listItemRegex line \<noteq> None" by (rule taskRegex_listItemRegex)
next
  fix m assume "taskRegex line = Some m"
  with assms show "toggleLine env line =
      replace line taskRegex (js ''$1- ['' @ nextStatusSymbol env (group m 3) @ js ''] $4'')"
    by (simp add: toggleLine_def Let_def)
next
  fix indentation marker rest
  assume t: "taskRegex line = None"
    and d: "line = indentation @ marker @ rest \<and> list_all isIndentation indentation \<and>
            listMarker (marker @ rest) = Some marker"
  then have l: "listItemRegex line =
      Some \<lparr>matched = indentation @ marker, captures = [indentation, marker]\<rparr>"
    using listItemRegex_decompose by blast
  from toggleLine_listItem [OF assms t l] d
  show "toggleLine env line = indentation @ marker @ js '' [ ]'' @ rest" by simp
next
  assume "listItemRegex line = None"
  with toggleLine_plain [OF assms] show "taskRegex line = None" by blast
next
  assume "listItemRegex line = None"
  with toggleLine_plain [OF assms]
  show "toggleLine env line = takeWhile isIndentation line @ js ''- '' @ dropWhile isIndentation line"
    by blast
next
  assume l: "line = js ''  Just text''"
  have "listItemRegex (js ''  Just text'') = None"
    by (simp add: grammar_defs)
  with l toggleLine_plain [OF assms]
  have "toggleLine env line = takeWhile isIndentation line @ js ''- '' @ dropWhile isIndentation line"
    by blast
  then show "toggleLine env line = js ''  - Just text''"
    by (simp add: l grammar_defs)
qed

text \<open>The theorem at the line of scenario B, at a list item and at a checklist item.\<close>

theorem toggleLine_fallback_priority_witness:
  "fromLine exampleEnv (js ''  Just text'') = None \<and>
   toggleLine exampleEnv (js ''  Just text'') = js ''  - Just text'' \<and>
   taskRegex (js ''  * item'') = None \<and>
   toggleLine exampleEnv (js ''  * item'') = js ''  * [ ] item'' \<and>
   listItemRegex (js ''- [ ] a'') = Some \<lparr>matched = js ''-'', captures = [[], js ''-'']\<rparr> \<and>
   toggleLine exampleEnv (js ''- [ ] a'') = js ''- [x] a''"
proof -
  have p: "fromLine exampleEnv l = None" for l
    by (simp add: exampleEnv_def)
  have plain: "toggleLine exampleEnv (js ''  Just text'') = js ''  - Just text''"
    using toggleLine_fallback_priority [OF p, of "js ''  Just text''"] by blast
  have t: "taskRegex (js ''  * item'') = None"
    by (simp add: grammar_defs)
  have d: "js ''  * item'' = js ''  '' @ js ''*'' @ js '' item'' \<and>
      list_all isIndentation (js ''  '') \<and> listMarker (js ''*'' @ js '' item'') = Some (js ''*'')"
    by (simp add: grammar_defs)
  have item: "toggleLine exampleEnv (js ''  * item'') = js ''  '' @ js ''*'' @ js '' [ ]'' @ js '' item''"
    using toggleLine_fallback_priority [OF p, of "js ''  * item''"] t d by blast
  have c: "taskRegex (js ''- [ ] a'') =
      Some \<lparr>matched = js ''- [ ] a'', captures = [[], js ''-'', js '' '', js ''a'']\<rparr>"
    by (simp add: grammar_defs)
  have l: "listItemRegex (js ''- [ ] a'') = Some \<lparr>matched = js ''-'', captures = [[], js ''-'']\<rparr>"
    by (simp add: grammar_defs)
  have "toggleLine exampleEnv (js ''- [ ] a'') =
      replace (js ''- [ ] a'') taskRegex
        (js ''$1- ['' @ nextStatusSymbol exampleEnv
           (group \<lparr>matched = js ''- [ ] a'', captures = [[], js ''-'', js '' '', js ''a'']\<rparr> 3) @ js ''] $4'')"
    using toggleLine_fallback_priority [OF p, of "js ''- [ ] a''"] c by blast
  then have check: "toggleLine exampleEnv (js ''- [ ] a'') = js ''- [x] a''"
    by (simp add: replace_def group_def exampleEnv_def grammar_defs digitValue_def)
  from p plain t item l check show ?thesis by (simp add: js_def)
qed



section \<open>Claims about the query entry point\<close>

text \<open>
  Claim C9, at every query source whose query has an error. The promise is rejected with
  that error whatever the tasks and the state of the cache. But the source has no
  \<open>return\<close> after \<open>reject\<close>: when the cache is warm the callback goes on and applies the
  erroneous query to the task collection, once, and only the promise, which is settled
  already, keeps the result from the caller. The claim has it that no partial query is
  applied.
\<close>

theorem oneHotResolveQueryToTasks_applies_erroneous_query:
  assumes "Query_error api (newQuery api query) = Some e"
  shows "promise (oneHotResolveQueryToTasks api query tasks state) = Rejected e \<and>
         (state = State_Warm api \<longrightarrow>
            applied (oneHotResolveQueryToTasks api query tasks state) =
              [(newQuery api query, tasks)]) \<and>
         (state \<noteq> State_Warm api \<longrightarrow>
            applied (oneHotResolveQueryToTasks api query tasks state) = [])"
  using assms
  by (simp add: oneHotResolveQueryToTasks_def cacheUpdateCallback_def resolve_def reject_def Let_def)

text \<open>The theorem at a query source that does not compile, with a warm cache.\<close>

theorem oneHotResolveQueryToTasks_applies_erroneous_query_witness:
  "Query_error exampleApi (newQuery exampleApi (js ''bogus'')) =
     Some (js ''do not understand query: bogus'') \<and>
   State_Warm exampleApi = True \<and>
   promise (oneHotResolveQueryToTasks exampleApi (js ''bogus'') [1, 2] True) =
     Rejected (js ''do not understand query: bogus'') \<and>
   applied (oneHotResolveQueryToTasks exampleApi (js ''bogus'') [1, 2] True) =
     [(js ''bogus'', [1, 2])]"
proof -
  have h: "Query_error exampleApi (newQuery exampleApi (js ''bogus'')) =
     Some (js ''do not understand query: bogus'')"
    by (simp add: exampleApi_def js_def)
  have w: "State_Warm exampleApi = True" and q: "newQuery exampleApi (js ''bogus'') = js ''bogus''"
    by (simp_all add: exampleApi_def)
  from oneHotResolveQueryToTasks_applies_erroneous_query [OF h, of "[1, 2]" True] h w q
  show ?thesis by simp
qed

end
